theory Spec2Isabelle
  imports Complex_Main "HOL-Library.Sublist" "HOL-Library.AList"
begin

section \<open>Python string primitives\<close>

text \<open>
  A Python \<open>str\<close> is modelled as a \<open>string\<close> whose characters are the code points
  below 256. \<open>isspace\<close> is \<open>str.isspace\<close> on that range (it is also the class
  \<open>\s\<close> of \<open>re\<close> for \<open>str\<close> patterns): TAB, LF, VT, FF, CR, FS, GS, RS, US,
  SPACE, NEL and NBSP.
\<close>

definition isspace :: "char \<Rightarrow> bool" where
  "isspace c = (of_char c \<in> {9, 10, 11, 12, 13, 28, 29, 30, 31, 32, 133, 160 :: nat})"

definition lstrip :: "string \<Rightarrow> string" where
  "lstrip s = dropWhile isspace s"

definition rstrip :: "string \<Rightarrow> string" where
  "rstrip s = rev (dropWhile isspace (rev s))"

definition strip :: "string \<Rightarrow> string" where
  "strip s = lstrip (rstrip s)"

definition startswith :: "string \<Rightarrow> string \<Rightarrow> bool" where
  "startswith s p = prefix p s"

definition endswith :: "string \<Rightarrow> string \<Rightarrow> bool" where
  "endswith s p = suffix p s"

text \<open>\<open>s.split("\n")\<close>: always at least one piece.\<close>

fun split_nl :: "string \<Rightarrow> string list" where
  "split_nl [] = [[]]"
| "split_nl (c # cs) =
     (if c = CHR 0x0A then [] # split_nl cs
      else (case split_nl cs of [] \<Rightarrow> [[c]] | l # ls \<Rightarrow> (c # l) # ls))"

text \<open>\<open>"\n".join(lines)\<close>\<close>

fun join_nl :: "string list \<Rightarrow> string" where
  "join_nl [] = []"
| "join_nl [l] = l"
| "join_nl (l # m # ls) = l @ CHR 0x0A # join_nl (m # ls)"

text \<open>
  \<open>s.replace(old, new)\<close> for a non-empty \<open>old\<close>: the non-overlapping occurrences,
  leftmost first. (Python gives an empty \<open>old\<close> a meaning of its own; the source
  never passes one, and the model then leaves the text as it is.)
\<close>

function str_replace :: "string \<Rightarrow> string \<Rightarrow> string \<Rightarrow> string" where
  "str_replace old new [] = []"
| "str_replace old new (c # cs) =
     (if old \<noteq> [] \<and> prefix old (c # cs)
      then new @ str_replace old new (drop (length old) (c # cs))
      else c # str_replace old new cs)"
  by pat_completeness auto
termination
  by (relation "measure (\<lambda>(old, new, s). length s)") (auto simp: Suc_le_eq)

text \<open>\<open>s.count(c)\<close> for a one-character \<open>c\<close>.\<close>

definition str_count :: "string \<Rightarrow> char \<Rightarrow> int" where
  "str_count s c = int (length (filter (\<lambda>x. x = c) s))"

text \<open>\<open>s.rfind(c)\<close> for a one-character \<open>c\<close>: the highest index, or -1.\<close>

definition rfind :: "string \<Rightarrow> char \<Rightarrow> int" where
  "rfind s c =
     (if c \<in> set s then int (length s) - 1 - int (length (takeWhile (\<lambda>x. x \<noteq> c) (rev s)))
      else - 1)"

text \<open>
  The slices \<open>s[:n]\<close> and \<open>s[n:]\<close> for an integer \<open>n\<close>: a negative \<open>n\<close> counts
  from the end, and both clamp to the text.
\<close>

definition slice_to :: "string \<Rightarrow> int \<Rightarrow> string" where
  "slice_to s n = (if 0 \<le> n then take (nat n) s else take (nat (int (length s) + n)) s)"

definition slice_from :: "string \<Rightarrow> int \<Rightarrow> string" where
  "slice_from s n = (if 0 \<le> n then drop (nat n) s else drop (nat (int (length s) + n)) s)"

text \<open>\<open>c * n\<close> for an integer \<open>n\<close>: empty when \<open>n\<close> is not positive.\<close>

definition str_times :: "char \<Rightarrow> int \<Rightarrow> string" where
  "str_times c n = replicate (nat n) c"

section \<open>JSON values and exceptions\<close>

text \<open>
  What \<open>json.loads\<close> returns. The number type is a parameter: an \<open>int\<close> or a
  \<open>float\<close> of Python are both a \<open>JNum\<close>. A \<open>dict\<close> keeps its insertion order,
  so it is an association list (with distinct keys when it comes from Python).
\<close>

datatype 'n json =
    JNull
  | JBool bool
  | JNum 'n
  | JString string
  | JArray "'n json list"
  | JObject "(string \<times> 'n json) list"

text \<open>
  The exceptions of the model: \<open>json.JSONDecodeError\<close>, which \<open>clean_ai_json\<close>
  catches by name, and any other \<open>Exception\<close>; both carry \<open>str(e)\<close>.
\<close>

datatype py_exn = JSONDecodeError string | OtherException string

fun str_exn :: "py_exn \<Rightarrow> string" where
  "str_exn (JSONDecodeError m) = m"
| "str_exn (OtherException m) = m"

section \<open>utils/ai_wrapper.py: the model invoker and its cache\<close>

text \<open>
  The module-level \<open>_ai_cache\<close> and the number of completion requests sent so far.
  The remote model is a function \<open>client\<close> from the request and the index of the
  request to what \<open>client.chat.completions.create\<close> does there: it returns a message
  content, or something in the \<open>try\<close> block raises.
\<close>

record ai_state =
  ai_cache :: "string \<rightharpoonup> string"
  requests :: nat

datatype completion = Content string | Raises string

type_synonym 't request = "string \<times> string \<times> 't \<times> int"

definition DEFAULT_MODEL :: string where
  "DEFAULT_MODEL = ''gpt-4.1''"

definition CHEAP_MODEL :: string where
  "CHEAP_MODEL = ''gpt-4o-mini''"

text \<open>Lines 63 to 71 of \<open>smart_ai\<close>: the fence stripping of one output.\<close>

definition strip_fence :: "string \<Rightarrow> string" where
  \<open>strip_fence content =
     (let output = strip content in
      if startswith output ''```'' then
        (let lines = split_nl output;
             lines = (case lines of [] \<Rightarrow> lines
                      | l # ls \<Rightarrow> if startswith l ''```'' then ls else lines);
             lines = (if lines \<noteq> [] \<and> strip (last lines) = ''```'' then butlast lines else lines)
         in strip (join_nl lines))
      else output)\<close>

text \<open>\<open>json.dumps({"error": "AI failed after retries"})\<close>\<close>

definition AI_FAILED :: string where
  \<open>AI_FAILED = ''{"error": "AI failed after retries"}''\<close>

text \<open>
  \<open>cache_key or prompt.strip()[:200]\<close>: \<open>None\<close> and the empty string both fall
  through to the prompt.
\<close>

definition cache_key_of :: "string \<Rightarrow> string option \<Rightarrow> string" where
  "cache_key_of prompt cache_key =
     (case cache_key of
        None \<Rightarrow> slice_to (strip prompt) 200
      | Some k \<Rightarrow> if k = [] then slice_to (strip prompt) 200 else k)"

definition model_of :: "string option \<Rightarrow> string" where
  "model_of model =
     (case model of None \<Rightarrow> DEFAULT_MODEL | Some m \<Rightarrow> if m = [] then DEFAULT_MODEL else m)"

text \<open>
  The loop \<open>for attempt in range(max_retry)\<close>, on the attempts that remain. Every
  attempt sends one request; a success stores and returns, a raise goes to the next
  attempt (the \<open>time.sleep(1)\<close> is not modelled).
\<close>

fun smart_ai_attempts ::
  "('t request \<Rightarrow> nat \<Rightarrow> completion) \<Rightarrow> 't request \<Rightarrow> string \<Rightarrow> nat \<Rightarrow> ai_state
     \<Rightarrow> string \<times> ai_state" where
  "smart_ai_attempts client rq key 0 s = (AI_FAILED, s)"
| "smart_ai_attempts client rq key (Suc n) s =
     (case client rq (requests s) of
        Content content \<Rightarrow>
          (let output = strip_fence content
           in (output, s\<lparr>ai_cache := (ai_cache s)(key \<mapsto> output), requests := Suc (requests s)\<rparr>))
      | Raises e \<Rightarrow> smart_ai_attempts client rq key n (s\<lparr>requests := Suc (requests s)\<rparr>))"

definition smart_ai ::
  "('t request \<Rightarrow> nat \<Rightarrow> completion) \<Rightarrow> string \<Rightarrow> string option \<Rightarrow> string option \<Rightarrow> int
     \<Rightarrow> 't \<Rightarrow> int \<Rightarrow> ai_state \<Rightarrow> string \<times> ai_state" where
  "smart_ai client prompt model cache_key max_retry temperature max_tokens s =
     (let use_model = model_of model;
          key = cache_key_of prompt cache_key
      in case ai_cache s key of
           Some cached \<Rightarrow> (cached, s)
         | None \<Rightarrow>
             smart_ai_attempts client (use_model, prompt, temperature, max_tokens) key
               (nat max_retry) s)"

definition clear_cache :: "ai_state \<Rightarrow> ai_state" where
  "clear_cache s = s\<lparr>ai_cache := Map.empty\<rparr>"

section \<open>utils/ai_wrapper.py: the JSON contract\<close>

text \<open>
  \<open>re.search(r"\{.*\}", cleaned, re.DOTALL)\<close>: the leftmost match starts at the
  first \<open>{\<close> and, the star being greedy, ends at the last \<open>}\<close> after it; there is
  no match when no \<open>}\<close> follows the first \<open>{\<close>.
\<close>

definition search_braces :: "string \<Rightarrow> string option" where
  "search_braces s =
     (let t = dropWhile (\<lambda>c. c \<noteq> CHR ''{'') s
      in if CHR ''}'' \<in> set t then Some (rev (dropWhile (\<lambda>c. c \<noteq> CHR ''}'') (rev t)))
         else None)"

definition fix_truncated_json :: "string \<Rightarrow> string" where
  \<open>fix_truncated_json json_str0 =
     (let json_str = rstrip json_str0;
          json_str = (if endswith json_str '','' then slice_to json_str (- 1) else json_str);
          json_str =
            (if endswith json_str ''"'' then json_str
             else if CHR 0x22 \<in> set json_str then
               (let last_quote = rfind json_str (CHR 0x22);
                    second_last_quote = rfind (slice_to json_str last_quote) (CHR 0x22)
                in if second_last_quote \<noteq> - 1 then
                     (if CHR '':'' \<in> set (slice_from json_str last_quote)
                      then slice_to json_str (last_quote + 1) @ ''""''
                      else json_str)
                   else json_str)
             else json_str);
          open_braces = str_count json_str (CHR ''{'') - str_count json_str (CHR ''}'');
          open_brackets = str_count json_str (CHR ''['') - str_count json_str (CHR '']'');
          json_str = (if endswith (rstrip json_str) '','' then slice_to (rstrip json_str) (- 1)
                      else json_str);
          json_str = json_str @ str_times (CHR '']'') open_brackets;
          json_str = json_str @ str_times (CHR ''}'') open_braces
      in json_str)\<close>

text \<open>
  \<open>clean_ai_json\<close>, over the \<open>json.loads\<close> it is given. Only a
  \<open>JSONDecodeError\<close> of the first parse leads to the repair; the second parse, and
  any other exception of the first, raise to the caller.
\<close>

definition clean_ai_json ::
  "(string \<Rightarrow> py_exn + 'n json) \<Rightarrow> string \<Rightarrow> py_exn + 'n json" where
  \<open>clean_ai_json loads ai_response =
     (let cleaned = strip (str_replace ''```'' '''' (str_replace ''```json'' '''' ai_response));
          cleaned = (case search_braces cleaned of Some m \<Rightarrow> m | None \<Rightarrow> cleaned)
      in case loads cleaned of
           Inr v \<Rightarrow> Inr v
         | Inl (JSONDecodeError m) \<Rightarrow> loads (fix_truncated_json cleaned)
         | Inl (OtherException m) \<Rightarrow> Inl (OtherException m))\<close>

text \<open>Lines 102 to 105 of \<open>clean_ai_json\<close>: the text that is handed to the parser.\<close>

definition json_candidate :: "string \<Rightarrow> string" where
  \<open>json_candidate ai_response =
     (let cleaned = strip (str_replace ''```'' [] (str_replace ''```json'' [] ai_response))
      in case search_braces cleaned of Some m \<Rightarrow> m | None \<Rightarrow> cleaned)\<close>

text \<open>
  Lines 175 to 193 of \<open>safe_json_ai\<close>: from the text \<open>smart_ai\<close> returned to the
  dict (the spec's \<open>parseGuaranteed\<close>).
\<close>

definition parse_guaranteed ::
  "(string \<Rightarrow> py_exn + 'n json) \<Rightarrow> string \<Rightarrow> (string \<times> 'n json) list" where
  "parse_guaranteed loads raw_output =
     (if raw_output = [] \<or> strip raw_output = [] then
        [(''error'', JString ''AI returned empty response''), (''raw'', JString [])]
      else
        (case clean_ai_json loads raw_output of
           Inr parsed \<Rightarrow>
             (case parsed of
                JObject d \<Rightarrow> d
              | JArray xs \<Rightarrow> [(''data'', parsed), (''raw'', JString raw_output)]
              | _ \<Rightarrow> [(''data'', parsed), (''raw'', JString raw_output)])
         | Inl je \<Rightarrow>
             [(''error'', JString (''Invalid JSON from AI: '' @ slice_to (str_exn je) 100)),
              (''raw'', JString (slice_to raw_output 2000))]))"

text \<open>
  \<open>safe_json_ai\<close>. \<open>smart_ai\<close> is called with its default \<open>max_retry\<close> of 3. It
  raises nothing, and the inner handler catches every exception of the parse, so the
  outer handler (lines 195 to 200) is never entered and has no branch here.
\<close>

definition safe_json_ai ::
  "('t request \<Rightarrow> nat \<Rightarrow> completion) \<Rightarrow> (string \<Rightarrow> py_exn + 'n json) \<Rightarrow> string
     \<Rightarrow> string option \<Rightarrow> string option \<Rightarrow> int \<Rightarrow> 't \<Rightarrow> (string \<times> 'n json) list option
     \<Rightarrow> ai_state \<Rightarrow> (string \<times> 'n json) list \<times> ai_state" where
  "safe_json_ai client loads prompt model cache_key max_tokens temperature default_response s =
     (let default_response =
            (case default_response of
               None \<Rightarrow> [(''error'', JString ''AI unavailable''), (''raw'', JString [])]
             | Some d \<Rightarrow> d);
          (raw_output, s') = smart_ai client prompt model cache_key 3 temperature max_tokens s
      in (parse_guaranteed loads raw_output, s'))"

section \<open>A model of \<open>json.loads\<close>\<close>

text \<open>
  \<open>clean_ai_json\<close> takes \<open>json.loads\<close> as a parameter, so what is proved of it
  holds of any parser. Where a text has to be parsed for real, this section gives the
  parser of the standard library, written after \<open>json.decoder\<close> and
  \<open>json.scanner\<close>: \<open>scan_once\<close>, \<open>JSONObject\<close> (here \<open>json_members\<close>, from
  the first key on), \<open>JSONArray\<close> (here \<open>json_elems\<close>), \<open>scanstring\<close> and the
  number pattern. An integer literal is a \<open>PyInt\<close>; a literal with a fraction or an
  exponent, and \<open>NaN\<close> and the infinities, are a \<open>PyFloat\<close> that keeps the literal
  uninterpreted. Three things are not modelled: the position that ends the message of a
  \<open>JSONDecodeError\<close> (and the backslash in the two messages about escapes); escapes
  \<open>\uXXXX\<close> of a code point above 255, which the model rejects; and the recursion
  limit of the interpreter. In its place the three functions take a budget of calls that
  every call lowers by one and that raises, when it is spent, the exception that is not a
  \<open>JSONDecodeError\<close>. Of two calls in a row at least one consumes a character, so
  \<open>json_loads\<close> gives a budget of more than twice the length of the text, which is
  never spent (\<open>json_loads_budget\<close> below).
\<close>

datatype py_num = PyInt int | PyFloat string

definition json_ws :: "char \<Rightarrow> bool" where
  "json_ws c = (c = CHR '' '' \<or> c = CHR 0x09 \<or> c = CHR 0x0A \<or> c = CHR 0x0D)"

definition skip_ws :: "string \<Rightarrow> string" where
  "skip_ws s = dropWhile json_ws s"

definition is_digit :: "char \<Rightarrow> bool" where
  "is_digit c = (48 \<le> (of_char c :: nat) \<and> (of_char c :: nat) \<le> 57)"

definition hex_val :: "char \<Rightarrow> nat option" where
  "hex_val c =
     (let n = (of_char c :: nat)
      in if 48 \<le> n \<and> n \<le> 57 then Some (n - 48)
         else if 97 \<le> n \<and> n \<le> 102 then Some (n - 87)
         else if 65 \<le> n \<and> n \<le> 70 then Some (n - 55)
         else None)"

definition decode_uXXXX :: "string \<Rightarrow> char option" where
  "decode_uXXXX s =
     (case map hex_val (take 4 s) of
        [Some a, Some b, Some c, Some d] \<Rightarrow>
          (let n = ((a * 16 + b) * 16 + c) * 16 + d
           in if n < 256 then Some (char_of n) else None)
      | _ \<Rightarrow> None)"

definition backslash :: "char \<Rightarrow> char option" where
  "backslash e =
     (if e = CHR 0x22 then Some (CHR 0x22)
      else if e = CHR 0x5C then Some (CHR 0x5C)
      else if e = CHR ''/'' then Some (CHR ''/'')
      else if e = CHR ''b'' then Some (CHR 0x08)
      else if e = CHR ''f'' then Some (CHR 0x0C)
      else if e = CHR ''n'' then Some (CHR 0x0A)
      else if e = CHR ''r'' then Some (CHR 0x0D)
      else if e = CHR ''t'' then Some (CHR 0x09)
      else None)"

fun scanstring :: "string \<Rightarrow> string + string \<times> string" where
  "scanstring [] = Inl ''Unterminated string starting at''"
| "scanstring (c # cs) =
     (if c = CHR 0x22 then Inr ([], cs)
      else if c = CHR 0x5C then
        (case cs of
           [] \<Rightarrow> Inl ''Unterminated string starting at''
         | e # es \<Rightarrow>
             if e = CHR ''u'' then
               (case decode_uXXXX es of
                  None \<Rightarrow> Inl ''Invalid uXXXX escape''
                | Some ch \<Rightarrow>
                    (case scanstring (drop 4 es) of
                       Inl m \<Rightarrow> Inl m
                     | Inr (t, r) \<Rightarrow> Inr (ch # t, r)))
             else
               (case backslash e of
                  None \<Rightarrow> Inl ''Invalid escape''
                | Some ch \<Rightarrow>
                    (case scanstring es of
                       Inl m \<Rightarrow> Inl m
                     | Inr (t, r) \<Rightarrow> Inr (ch # t, r))))
      else if (of_char c :: nat) < 32 then Inl ''Invalid control character at''
      else
        (case scanstring cs of
           Inl m \<Rightarrow> Inl m
         | Inr (t, r) \<Rightarrow> Inr (c # t, r)))"

definition int_of_digits :: "string \<Rightarrow> int" where
  "int_of_digits ds = foldl (\<lambda>a d. 10 * a + int (of_char d - 48)) 0 ds"

definition match_number :: "string \<Rightarrow> (py_num \<times> string) option" where
  "match_number s =
     (let sign = (if startswith s ''-'' then ''-'' else []);
          t = drop (length sign) s;
          integer = (if startswith t ''0'' then ''0''
                     else takeWhile is_digit t);
          r1 = drop (length integer) t;
          frac = (case r1 of
                    p # q # _ \<Rightarrow> if p = CHR ''.'' \<and> is_digit q
                                 then p # takeWhile is_digit (tl r1) else []
                  | _ \<Rightarrow> []);
          r2 = drop (length frac) r1;
          esign = (case r2 of
                     e # g # _ \<Rightarrow> if (e = CHR ''e'' \<or> e = CHR ''E'') \<and> (g = CHR ''+'' \<or> g = CHR ''-'')
                                  then [e, g] else if e = CHR ''e'' \<or> e = CHR ''E'' then [e] else []
                   | [e] \<Rightarrow> if e = CHR ''e'' \<or> e = CHR ''E'' then [e] else []
                   | [] \<Rightarrow> []);
          edigits = takeWhile is_digit (drop (length esign) r2);
          exp = (if esign \<noteq> [] \<and> edigits \<noteq> [] then esign @ edigits else []);
          r3 = drop (length exp) r2
      in if integer = [] then None
         else if frac = [] \<and> exp = [] then
           Some (PyInt ((if sign = [] then 1 else - 1) * int_of_digits integer), r3)
         else Some (PyFloat (sign @ integer @ frac @ exp), r3))"

definition dict_of :: "(string \<times> 'v) list \<Rightarrow> (string \<times> 'v) list" where
  "dict_of pairs = foldl (\<lambda>d (k, v). AList.update k v d) [] pairs"

fun scan_once :: "nat \<Rightarrow> string \<Rightarrow> py_exn + py_num json \<times> string"
  and json_members :: "nat \<Rightarrow> string \<Rightarrow> py_exn + (string \<times> py_num json) list \<times> string"
  and json_elems :: "nat \<Rightarrow> string \<Rightarrow> py_exn + py_num json list \<times> string" where
  "scan_once 0 s = Inl (OtherException ''maximum recursion depth exceeded'')"
| "scan_once (Suc n) s =
     (case s of
        [] \<Rightarrow> Inl (JSONDecodeError ''Expecting value'')
      | c # cs \<Rightarrow>
          if c = CHR 0x22 then
            (case scanstring cs of
               Inl m \<Rightarrow> Inl (JSONDecodeError m)
             | Inr (t, r) \<Rightarrow> Inr (JString t, r))
          else if c = CHR ''{'' then
            (case skip_ws cs of
               [] \<Rightarrow> Inl (JSONDecodeError ''Expecting property name enclosed in double quotes'')
             | d # ds \<Rightarrow>
                 if d = CHR ''}'' then Inr (JObject [], ds)
                 else if d = CHR 0x22 then
                   (case json_members n ds of
                      Inl e \<Rightarrow> Inl e
                    | Inr (pairs, r) \<Rightarrow> Inr (JObject (dict_of pairs), r))
                 else Inl (JSONDecodeError ''Expecting property name enclosed in double quotes''))
          else if c = CHR ''['' then
            (case skip_ws cs of
               [] \<Rightarrow> Inl (JSONDecodeError ''Expecting value'')
             | d # ds \<Rightarrow>
                 if d = CHR '']'' then Inr (JArray [], ds)
                 else
                   (case json_elems n (d # ds) of
                      Inl e \<Rightarrow> Inl e
                    | Inr (values, r) \<Rightarrow> Inr (JArray values, r)))
          else if startswith s ''null'' then Inr (JNull, drop 4 s)
          else if startswith s ''true'' then Inr (JBool True, drop 4 s)
          else if startswith s ''false'' then Inr (JBool False, drop 5 s)
          else
            (case match_number s of
               Some (v, r) \<Rightarrow> Inr (JNum v, r)
             | None \<Rightarrow>
                 if startswith s ''NaN'' then Inr (JNum (PyFloat ''NaN''), drop 3 s)
                 else if startswith s ''Infinity'' then Inr (JNum (PyFloat ''Infinity''), drop 8 s)
                 else if startswith s ''-Infinity'' then Inr (JNum (PyFloat ''-Infinity''), drop 9 s)
                 else Inl (JSONDecodeError ''Expecting value'')))"
| "json_members 0 s = Inl (OtherException ''maximum recursion depth exceeded'')"
| "json_members (Suc n) s =
     (case scanstring s of
        Inl m \<Rightarrow> Inl (JSONDecodeError m)
      | Inr (key, r) \<Rightarrow>
          (case skip_ws r of
             [] \<Rightarrow> Inl (JSONDecodeError ''Expecting ':' delimiter'')
           | c # cs \<Rightarrow>
               if c \<noteq> CHR '':'' then Inl (JSONDecodeError ''Expecting ':' delimiter'')
               else
                 (case scan_once n (skip_ws cs) of
                    Inl e \<Rightarrow> Inl e
                  | Inr (v, r2) \<Rightarrow>
                      (case skip_ws r2 of
                         [] \<Rightarrow> Inl (JSONDecodeError ''Expecting ',' delimiter'')
                       | d # ds \<Rightarrow>
                           if d = CHR ''}'' then Inr ([(key, v)], ds)
                           else if d \<noteq> CHR '','' then Inl (JSONDecodeError ''Expecting ',' delimiter'')
                           else
                             (case skip_ws ds of
                                [] \<Rightarrow> Inl (JSONDecodeError
                                        ''Expecting property name enclosed in double quotes'')
                              | q # qs \<Rightarrow>
                                  if q \<noteq> CHR 0x22 then
                                    Inl (JSONDecodeError
                                      ''Expecting property name enclosed in double quotes'')
                                  else
                                    (case json_members n qs of
                                       Inl e \<Rightarrow> Inl e
                                     | Inr (pairs, r3) \<Rightarrow> Inr ((key, v) # pairs, r3)))))))"
| "json_elems 0 s = Inl (OtherException ''maximum recursion depth exceeded'')"
| "json_elems (Suc n) s =
     (case scan_once n s of
        Inl e \<Rightarrow> Inl e
      | Inr (v, r) \<Rightarrow>
          (case skip_ws r of
             [] \<Rightarrow> Inl (JSONDecodeError ''Expecting ',' delimiter'')
           | d # ds \<Rightarrow>
               if d = CHR '']'' then Inr ([v], ds)
               else if d \<noteq> CHR '','' then Inl (JSONDecodeError ''Expecting ',' delimiter'')
               else
                 (case json_elems n (skip_ws ds) of
                    Inl e \<Rightarrow> Inl e
                  | Inr (values, r2) \<Rightarrow> Inr (v # values, r2))))"

definition json_loads :: "string \<Rightarrow> py_exn + py_num json" where
  "json_loads s =
     (case scan_once (Suc (2 * length s)) (skip_ws s) of
        Inl e \<Rightarrow> Inl e
      | Inr (v, r) \<Rightarrow> if skip_ws r = [] then Inr v else Inl (JSONDecodeError ''Extra data''))"

section \<open>modules/analyse_html.py: the fetcher\<close>

text \<open>
  \<open>str.lower\<close> on the code points below 256, the test \<open>sub in s\<close>, and \<open>str\<close> of
  an integer (the decimal text of the f-strings).
\<close>

definition lower_char :: "char \<Rightarrow> char" where
  "lower_char c =
     (let n = (of_char c :: nat)
      in if (65 \<le> n \<and> n \<le> 90) \<or> (192 \<le> n \<and> n \<le> 222 \<and> n \<noteq> 215) then char_of (n + 32) else c)"

definition str_lower :: "string \<Rightarrow> string" where
  "str_lower s = map lower_char s"

fun str_contains :: "string \<Rightarrow> string \<Rightarrow> bool" where
  "str_contains [] sub = (sub = [])"
| "str_contains (c # cs) sub = (prefix sub (c # cs) \<or> str_contains cs sub)"

definition digit_char :: "nat \<Rightarrow> char" where
  "digit_char d = char_of (48 + d)"

function str_nat :: "nat \<Rightarrow> string" where
  "str_nat n = (if n < 10 then [digit_char n] else str_nat (n div 10) @ [digit_char (n mod 10)])"
  by pat_completeness auto
termination
  by (relation "measure id") auto

definition str_int :: "int \<Rightarrow> string" where
  "str_int i = (if i < 0 then CHR ''-'' # str_nat (nat (- i)) else str_nat (nat i))"

text \<open>
  What one \<open>client.get\<close> does: it returns a response (status code, reason phrase,
  text) or raises an exception, of whatever class, with the given \<open>str(e)\<close>. The
  network is a function of the URL, the \<open>verify\<close> flag, the timeout and the index of
  the request among those sent so far.
\<close>

datatype outcome =
    Response int string string
  | Raised string

record fetch_result =
  success :: bool
  status_code :: "int option"
  html :: string
  error :: string

type_synonym network = "string \<Rightarrow> bool \<Rightarrow> int \<Rightarrow> nat \<Rightarrow> outcome"

definition is_replit_url :: "string \<Rightarrow> bool" where
  "is_replit_url url =
     (let url_lower = str_lower url
      in list_ex (\<lambda>x. str_contains url_lower x) [''.replit.'', ''spock.'', ''.repl.co'', ''replit.dev''])"

text \<open>\<open>last_error or "Failed after 3 attempts"\<close>\<close>

definition or_default :: "string option \<Rightarrow> string \<Rightarrow> string" where
  "or_default last_error d = (case last_error of None \<Rightarrow> d | Some e \<Rightarrow> if e = [] then d else e)"

text \<open>
  The first handler of the inner \<open>try\<close> (line 112) names \<open>httpx.SSLError\<close>, and
  the \<open>httpx\<close> package has no attribute of that name. So when \<open>client.get\<close> raises,
  whatever the exception, evaluating that \<open>except\<close> clause raises an
  \<open>AttributeError\<close> in its turn; it leaves the loop and is caught by the last handler
  of the function (lines 147 and 148), which stores the message below. The handlers of
  lines 112 to 141 (the request without certificate verification, the timeout message,
  the retry after an exception) therefore never run and have no branch in the model: the
  only retry is the one after a page of fewer than 50 characters.
\<close>

definition UNEXPECTED_ERROR :: string where
  "UNEXPECTED_ERROR =
     ''Unexpected error: AttributeError: module '' @ [CHR 0x27] @ ''httpx'' @ [CHR 0x27]
       @ '' has no attribute '' @ [CHR 0x27] @ ''SSLError'' @ [CHR 0x27]"

text \<open>
  The loop \<open>for attempt in range(3)\<close> on the rounds that remain, and the line after
  it. \<open>k\<close> counts the requests sent.
\<close>

fun fetch_attempts ::
  "network \<Rightarrow> string \<Rightarrow> int \<Rightarrow> nat \<Rightarrow> string option \<Rightarrow> fetch_result \<Rightarrow> nat
     \<Rightarrow> fetch_result \<times> nat" where
  "fetch_attempts net url timeout 0 last_error result k =
     (result\<lparr>error := or_default last_error ''Failed after 3 attempts''\<rparr>, k)"
| "fetch_attempts net url timeout (Suc n) last_error result k =
     (case net url True timeout k of
        Response status reason text \<Rightarrow>
          (let result = result\<lparr>status_code := Some status\<rparr>
           in if status = 200 then
                (if length text < 50 then
                   fetch_attempts net url timeout n (Some ''Empty or slow response from server'')
                     result (Suc k)
                 else (result\<lparr>success := True, html := text\<rparr>, Suc k))
              else (result\<lparr>error := ''HTTP '' @ str_int status @ '': '' @ reason\<rparr>, Suc k))
      | Raised m \<Rightarrow> (result\<lparr>error := UNEXPECTED_ERROR\<rparr>, Suc k))"

text \<open>
  Lines 69 to 81: the URL that is fetched, or the error message. \<open>urlparse\<close> is
  the one of the standard library, taken as a parameter that gives the scheme or raises
  a \<open>ValueError\<close> (\<open>Inl\<close> of its message, caught at line 145). It runs before the
  test for an empty URL, as in the source.
\<close>

definition checked_url :: "(string \<Rightarrow> string + string) \<Rightarrow> string \<Rightarrow> string + string" where
  "checked_url urlparse url =
     (case urlparse url of
        Inl e \<Rightarrow> Inl (''Invalid URL: '' @ e)
      | Inr scheme \<Rightarrow>
          if strip url = [] then Inl ''URL cannot be empty''
          else if scheme = [] then
            (case urlparse (''https://'' @ url) of
               Inl e \<Rightarrow> Inl (''Invalid URL: '' @ e)
             | Inr scheme \<Rightarrow>
                 if scheme \<noteq> ''http'' \<and> scheme \<noteq> ''https''
                 then Inl (''Invalid scheme: '' @ scheme @ ''. Only http and https are supported.'')
                 else Inr (''https://'' @ url))
          else if scheme \<noteq> ''http'' \<and> scheme \<noteq> ''https''
            then Inl (''Invalid scheme: '' @ scheme @ ''. Only http and https are supported.'')
          else Inr url)"

definition timeout_of :: "string \<Rightarrow> int" where
  "timeout_of url = (if is_replit_url url then 45 else 20)"

definition fetch_raw_html ::
  "(string \<Rightarrow> string + string) \<Rightarrow> network \<Rightarrow> string \<Rightarrow> nat \<Rightarrow> fetch_result \<times> nat" where
  "fetch_raw_html urlparse net url k =
     (let result = \<lparr>success = False, status_code = None, html = [], error = []\<rparr>
      in case checked_url urlparse url of
           Inl e \<Rightarrow> (result\<lparr>error := e\<rparr>, k)
         | Inr url \<Rightarrow> fetch_attempts net url (timeout_of url) 3 None result k)"

text \<open>
  Concrete collaborators. First the scheme that \<open>urllib.parse.urlsplit\<close> of Python
  3.11 finds: leading characters up to the space are dropped, TAB, CR and LF are removed,
  and the text before the first colon is the scheme when it starts with a letter and
  holds scheme characters only (so the host of \<open>localhost:8080\<close> is read as a
  scheme). When the rest starts with \<open>//\<close>, a network location with one square bracket
  and not the other raises \<open>ValueError\<close>; the later checks of the network location
  are not modelled. Then three networks: one on which every request raises, one that
  answers 404, and one that serves a page of more than 50 characters.
\<close>

definition scheme_char :: "char \<Rightarrow> bool" where
  "scheme_char c =
     (let n = (of_char c :: nat)
      in (97 \<le> n \<and> n \<le> 122) \<or> (65 \<le> n \<and> n \<le> 90) \<or> (48 \<le> n \<and> n \<le> 57)
         \<or> c = CHR ''+'' \<or> c = CHR ''-'' \<or> c = CHR ''.'')"

definition ascii_alpha :: "char \<Rightarrow> bool" where
  "ascii_alpha c = (let n = (of_char c :: nat) in (97 \<le> n \<and> n \<le> 122) \<or> (65 \<le> n \<and> n \<le> 90))"

definition urlsplit_scheme :: "string \<Rightarrow> string + string" where
  "urlsplit_scheme url0 =
     (let url = dropWhile (\<lambda>c. (of_char c :: nat) \<le> 32) url0;
          url = filter (\<lambda>c. c \<noteq> CHR 0x09 \<and> c \<noteq> CHR 0x0D \<and> c \<noteq> CHR 0x0A) url;
          head = takeWhile (\<lambda>c. c \<noteq> CHR '':'') url;
          has_scheme = (CHR '':'' \<in> set url \<and> head \<noteq> [] \<and> ascii_alpha (hd url)
                        \<and> list_all scheme_char head);
          scheme = (if has_scheme then str_lower head else []);
          rest = (if has_scheme then drop (Suc (length head)) url else url);
          netloc = (if startswith rest ''//''
                    then takeWhile (\<lambda>c. c \<noteq> CHR ''/'' \<and> c \<noteq> CHR ''?'' \<and> c \<noteq> CHR ''#'') (drop 2 rest)
                    else [])
      in if (CHR ''['' \<in> set netloc) \<noteq> (CHR '']'' \<in> set netloc) then Inl ''Invalid IPv6 URL''
         else Inr scheme)"


definition not_found :: network where
  "not_found url verify timeout k = Response 404 ''Not Found'' ''<html><body>no such page</body></html>''"

definition ok_page :: string where
  "ok_page = ''<html><body>ok ok ok ok ok ok ok ok ok ok ok ok ok ok ok ok</body></html>''"

definition serving :: network where
  "serving url verify timeout k = Response 200 ''OK'' ok_page"

text \<open>
  The provenance of a page: \<open>html r\<close> is the text of a response with status 200 to
  one of the requests with index from \<open>k\<close> up to \<open>k'\<close>.
\<close>

definition from_ok_response :: "network \<Rightarrow> string \<Rightarrow> int \<Rightarrow> nat \<Rightarrow> nat \<Rightarrow> fetch_result \<Rightarrow> bool" where
  "from_ok_response net url t k k' r =
     (\<exists>i verify reason. k \<le> i \<and> i < k' \<and> net url verify t i = Response 200 reason (html r))"

text \<open>
  The provenance of the cache: every stored text is the fence-stripped content of a
  completion that the remote model returned to one of the requests sent so far.
\<close>

definition from_model :: "('t request \<Rightarrow> nat \<Rightarrow> completion) \<Rightarrow> ai_state \<Rightarrow> bool" where
  "from_model client s =
     (\<forall>k v. ai_cache s k = Some v \<longrightarrow>
        (\<exists>rq i c. i < requests s \<and> client rq i = Content c \<and> v = strip_fence c))"

text \<open>
  Concrete remote models and the state of a fresh process: a model whose first request
  times out, and one that is down for its first three requests.
\<close>

definition flaky_client :: "real request \<Rightarrow> nat \<Rightarrow> completion" where
  "flaky_client rq i = (if i = 0 then Raises ''timeout'' else Content ''ok'')"

definition down_client :: "real request \<Rightarrow> nat \<Rightarrow> completion" where
  "down_client rq i = (if i < 3 then Raises ''timeout'' else Content ''ok'')"

definition fresh :: ai_state where
  "fresh = \<lparr>ai_cache = Map.empty, requests = 0\<rparr>"

section \<open>The model invoker: cache hits and cache purity\<close>

lemma smart_ai_attempts_requests:
  "requests s \<le> requests (snd (smart_ai_attempts client rq key n s))"
proof (induction n arbitrary: s)
  case 0
  show ?case by simp
next
  case (Suc n)
  show ?case
  proof (cases "client rq (requests s)")
    case (Content c)
    then show ?thesis by (simp add: Let_def)
  next
    case (Raises e)
    have "requests (s\<lparr>requests := Suc (requests s)\<rparr>)
            \<le> requests (snd (smart_ai_attempts client rq key n (s\<lparr>requests := Suc (requests s)\<rparr>)))"
      by (rule Suc.IH)
    with Raises show ?thesis by simp
  qed
qed

text \<open>
  C10. The \<open>default_response\<close> argument has no effect: whatever the prompt, the
  model, the cache key, the token and temperature settings, the behaviour of the
  remote model and of the parser, two calls that differ only in \<open>default_response\<close>
  return the same dict and leave the same state.
\<close>

theorem safe_json_ai_default_response_unused:
  "safe_json_ai client loads prompt model cache_key max_tokens temperature d1 s
     = safe_json_ai client loads prompt model cache_key max_tokens temperature d2 s"
  by (simp add: safe_json_ai_def)

lemma smart_ai_attempts_cases:
  "smart_ai_attempts client rq key n s = (out, s') \<Longrightarrow>
     (out = AI_FAILED \<and> ai_cache s' = ai_cache s \<and> requests s' = requests s + n
        \<and> (\<forall>i<n. \<exists>e. client rq (requests s + i) = Raises e))
     \<or> (\<exists>i<n. \<exists>c. client rq (requests s + i) = Content c
           \<and> (\<forall>j<i. \<exists>e. client rq (requests s + j) = Raises e)
           \<and> out = strip_fence c \<and> ai_cache s' = (ai_cache s)(key \<mapsto> out)
           \<and> requests s' = Suc (requests s + i))"
proof (induction n arbitrary: s)
  case 0
  then show ?case by auto
next
  case (Suc n)
  show ?case
  proof (cases "client rq (requests s)")
    case (Content c)
    with Suc.prems have "out = strip_fence c" "ai_cache s' = (ai_cache s)(key \<mapsto> out)"
      "requests s' = Suc (requests s)"
      by (auto simp: Let_def)
    with Content show ?thesis
      by (intro disjI2 exI[of _ 0]) auto
  next
    case (Raises e)
    let ?t = "s\<lparr>requests := Suc (requests s)\<rparr>"
    from Raises Suc.prems have run: "smart_ai_attempts client rq key n ?t = (out, s')"
      by simp
    from Suc.IH[OF run] show ?thesis
    proof (elim disjE conjE exE)
      assume a: "out = AI_FAILED" "ai_cache s' = ai_cache ?t" "requests s' = requests ?t + n"
        "\<forall>i<n. \<exists>e. client rq (requests ?t + i) = Raises e"
      have "\<forall>i<Suc n. \<exists>e. client rq (requests s + i) = Raises e"
      proof (intro allI impI)
        fix i assume "i < Suc n"
        show "\<exists>e. client rq (requests s + i) = Raises e"
        proof (cases i)
          case 0
          with Raises show ?thesis by simp
        next
          case (Suc k)
          with \<open>i < Suc n\<close> a(4) show ?thesis by auto
        qed
      qed
      with a show ?thesis by simp
    next
      fix i c
      assume b: "i < n" "client rq (requests ?t + i) = Content c"
        "\<forall>j<i. \<exists>e. client rq (requests ?t + j) = Raises e"
        "out = strip_fence c" "ai_cache s' = (ai_cache ?t)(key \<mapsto> out)"
        "requests s' = Suc (requests ?t + i)"
      have "\<forall>j<Suc i. \<exists>e. client rq (requests s + j) = Raises e"
      proof (intro allI impI)
        fix j assume "j < Suc i"
        show "\<exists>e. client rq (requests s + j) = Raises e"
        proof (cases j)
          case 0
          with Raises show ?thesis by simp
        next
          case (Suc k)
          with \<open>j < Suc i\<close> b(3) show ?thesis by auto
        qed
      qed
      with b show ?thesis
        by (intro disjI2 exI[of _ "Suc i"]) auto
    qed
  qed
qed

lemma from_model_fresh: "from_model client \<lparr>ai_cache = Map.empty, requests = n\<rparr>"
  by (simp add: from_model_def)

lemma from_model_clear_cache: "from_model client (clear_cache s)"
  by (simp add: from_model_def clear_cache_def)

text \<open>
  C5, as stated, fails: the first call may succeed on a retry. With a model whose first
  request times out, the first call returns the model's text, the second call returns
  the same text, and two requests have been sent, not one.
\<close>

theorem smart_ai_one_request_counterexample:
  "fst (smart_ai flaky_client ''p'' None (Some ''k'') 3 0.2 2000 fresh) = ''ok''
   \<and> fst (smart_ai flaky_client ''p'' None (Some ''k'') 3 0.2 2000
          (snd (smart_ai flaky_client ''p'' None (Some ''k'') 3 0.2 2000 fresh))) = ''ok''
   \<and> requests (snd (smart_ai flaky_client ''p'' None (Some ''k'') 3 0.2 2000
          (snd (smart_ai flaky_client ''p'' None (Some ''k'') 3 0.2 2000 fresh)))) \<noteq> 1"
  by (simp add: smart_ai_def cache_key_of_def model_of_def fresh_def flaky_client_def
      numeral_3_eq_3 strip_fence_def strip_def lstrip_def rstrip_def isspace_def startswith_def Let_def)

text \<open>
  C5, amended. For a key that is not cached yet, when the first call succeeds at its
  attempt number \<open>i + 1\<close> (the \<open>i\<close> attempts before it raise), the first call
  sends exactly \<open>i + 1\<close> requests (exactly one when its first attempt succeeds) and
  returns the fence-stripped content; a second call with the same prompt and cache key
  sends no request and returns that stored text and the same state, whatever the remote
  model \<open>client'\<close> would answer and whatever the other settings are.
\<close>

theorem smart_ai_second_call_cached:
  assumes first: "smart_ai client prompt model cache_key max_retry temperature max_tokens s = (out1, s1)"
    and miss: "ai_cache s (cache_key_of prompt cache_key) = None"
    and fails: "\<forall>j<i. \<exists>e. client (model_of model, prompt, temperature, max_tokens) (requests s + j) = Raises e"
    and answers: "client (model_of model, prompt, temperature, max_tokens) (requests s + i) = Content c"
    and bound: "i < nat max_retry"
  shows "out1 = strip_fence c
    \<and> requests s1 = requests s + i + 1
    \<and> smart_ai client' prompt model' cache_key max_retry' temperature' max_tokens' s1 = (out1, s1)"
proof -
  let ?rq = "(model_of model, prompt, temperature, max_tokens)"
  let ?key = "cache_key_of prompt cache_key"
  from first miss have run: "smart_ai_attempts client ?rq ?key (nat max_retry) s = (out1, s1)"
    by (simp add: smart_ai_def)
  from smart_ai_attempts_cases[OF run] show ?thesis
  proof (elim disjE conjE exE)
    assume "\<forall>k<nat max_retry. \<exists>e. client ?rq (requests s + k) = Raises e"
    with bound answers show ?thesis by auto
  next
    fix k d
    assume k: "k < nat max_retry" "client ?rq (requests s + k) = Content d"
      "\<forall>j<k. \<exists>e. client ?rq (requests s + j) = Raises e"
      "out1 = strip_fence d" "ai_cache s1 = (ai_cache s)(?key \<mapsto> out1)"
      "requests s1 = Suc (requests s + k)"
    have "k = i"
    proof (rule ccontr)
      assume "k \<noteq> i"
      then consider "k < i" | "i < k" by linarith
      then show False
      proof cases
        case 1
        with fails k(2) show False by auto
      next
        case 2
        with k(3) answers show False by auto
      qed
    qed
    with k answers have "out1 = strip_fence c" "requests s1 = requests s + i + 1" by auto
    moreover from k(5) have "ai_cache s1 ?key = Some out1" by simp
    then have "smart_ai client' prompt model' cache_key max_retry' temperature' max_tokens' s1 = (out1, s1)"
      by (simp add: smart_ai_def)
    ultimately show ?thesis by simp
  qed
qed


theorem smart_ai_second_call_cached_witness:
  "ai_cache fresh (cache_key_of ''p'' (Some ''k'')) = None
   \<and> flaky_client (model_of None, ''p'', 0.2, 2000) (requests fresh + 1) = Content ''ok''
   \<and> (1::nat) < nat 3
   \<and> fst (smart_ai flaky_client ''p'' None (Some ''k'') 3 0.2 2000 fresh) = strip_fence ''ok''
   \<and> requests (snd (smart_ai flaky_client ''p'' None (Some ''k'') 3 0.2 2000 fresh)) = 2
   \<and> smart_ai down_client ''p'' (Some CHEAP_MODEL) (Some ''k'') 1 0.9 10
         (snd (smart_ai flaky_client ''p'' None (Some ''k'') 3 0.2 2000 fresh))
       = smart_ai flaky_client ''p'' None (Some ''k'') 3 0.2 2000 fresh"
proof -
  let ?r = "smart_ai flaky_client ''p'' None (Some ''k'') 3 0.2 2000 fresh"
  have h1: "?r = (fst ?r, snd ?r)" by simp
  have h2: "ai_cache fresh (cache_key_of ''p'' (Some ''k'')) = None"
    by (simp add: fresh_def)
  have h3: "\<forall>j<1. \<exists>e. flaky_client (model_of None, ''p'', 0.2, 2000) (requests fresh + j) = Raises e"
    by (simp add: flaky_client_def fresh_def)
  have h4: "flaky_client (model_of None, ''p'', 0.2, 2000) (requests fresh + 1) = Content ''ok''"
    by (simp add: flaky_client_def)
  have h5: "(1::nat) < nat 3" by simp
  from smart_ai_second_call_cached[OF h1 h2 h3 h4 h5,
      of down_client "Some CHEAP_MODEL" 1 "0.9" 10]
  show ?thesis using h2 h4 h5 by (simp add: fresh_def)
qed

text \<open>
  C9. Cache purity: a call of \<open>smart_ai\<close> keeps the invariant that every cached
  text is the fence-stripped content of a successful request (it holds of the empty
  cache, and \<open>clear_cache\<close> keeps it). When the key is not cached and every attempt
  raises, the call returns the failure sentinel and leaves the cache as it was, so the
  sentinel is not stored: a later call with the same prompt and key sends a request
  again, and returns the fence-stripped content when that request succeeds.
\<close>

theorem smart_ai_cache_purity:
  assumes inv: "from_model client s"
    and run: "smart_ai client prompt model cache_key max_retry temperature max_tokens s = (out, s1)"
  shows "from_model client s1
    \<and> (ai_cache s (cache_key_of prompt cache_key) = None
         \<and> (\<forall>i<nat max_retry. \<exists>e.
               client (model_of model, prompt, temperature, max_tokens) (requests s + i) = Raises e)
       \<longrightarrow> out = AI_FAILED \<and> ai_cache s1 = ai_cache s
           \<and> (0 < max_retry' \<longrightarrow>
                 requests s1 < requests (snd (smart_ai client prompt model cache_key max_retry'
                                                 temperature max_tokens s1))
                 \<and> (\<forall>c. client (model_of model, prompt, temperature, max_tokens) (requests s1)
                            = Content c
                        \<longrightarrow> fst (smart_ai client prompt model cache_key max_retry'
                                   temperature max_tokens s1) = strip_fence c)))"
proof -
  let ?rq = "(model_of model, prompt, temperature, max_tokens)"
  let ?key = "cache_key_of prompt cache_key"
  show ?thesis
  proof (cases "ai_cache s ?key")
    case (Some v)
    with run have "s1 = s" by (simp add: smart_ai_def)
    with inv Some show ?thesis by simp
  next
    case None
    with run have att: "smart_ai_attempts client ?rq ?key (nat max_retry) s = (out, s1)"
      by (simp add: smart_ai_def)
    from smart_ai_attempts_cases[OF att] show ?thesis
    proof (elim disjE conjE exE)
      assume f: "out = AI_FAILED" "ai_cache s1 = ai_cache s"
        "requests s1 = requests s + nat max_retry"
      from inv f(2,3) have pure: "from_model client s1"
        unfolding from_model_def by (metis trans_less_add1)
      have again: "0 < max_retry' \<longrightarrow>
          requests s1 < requests (snd (smart_ai client prompt model cache_key max_retry'
                                          temperature max_tokens s1))
          \<and> (\<forall>c. client ?rq (requests s1) = Content c
                 \<longrightarrow> fst (smart_ai client prompt model cache_key max_retry'
                            temperature max_tokens s1) = strip_fence c)"
      proof
        assume "0 < max_retry'"
        then obtain m where m: "nat max_retry' = Suc m"
          by (metis Suc_pred' zero_less_nat_eq)
        from None f(2) have call: "smart_ai client prompt model cache_key max_retry'
              temperature max_tokens s1 = smart_ai_attempts client ?rq ?key (Suc m) s1"
          by (simp add: smart_ai_def m Let_def del: smart_ai_attempts.simps)
        show "requests s1 < requests (snd (smart_ai client prompt model cache_key max_retry'
                                          temperature max_tokens s1))
          \<and> (\<forall>c. client ?rq (requests s1) = Content c
                 \<longrightarrow> fst (smart_ai client prompt model cache_key max_retry'
                            temperature max_tokens s1) = strip_fence c)"
        proof (cases "client ?rq (requests s1)")
          case (Content c)
          with call show ?thesis by (simp add: Let_def)
        next
          case (Raises e)
          have "requests (s1\<lparr>requests := Suc (requests s1)\<rparr>)
                \<le> requests (snd (smart_ai_attempts client ?rq ?key m
                                    (s1\<lparr>requests := Suc (requests s1)\<rparr>)))"
            by (rule smart_ai_attempts_requests)
          with Raises call show ?thesis by simp
        qed
      qed
      from pure f(1,2) again show ?thesis by blast
    next
      fix i c
      assume k: "i < nat max_retry" "client ?rq (requests s + i) = Content c"
        "out = strip_fence c" "ai_cache s1 = (ai_cache s)(?key \<mapsto> out)"
        "requests s1 = Suc (requests s + i)"
      have pure: "from_model client s1"
        unfolding from_model_def
      proof (intro allI impI)
        fix k' v assume v: "ai_cache s1 k' = Some v"
        show "\<exists>rq j d. j < requests s1 \<and> client rq j = Content d \<and> v = strip_fence d"
        proof (cases "k' = ?key")
          case True
          with v k(4) have "v = strip_fence c" using k(3) by simp
          with k(2,5) show ?thesis
            by (intro exI[of _ ?rq] exI[of _ "requests s + i"] exI[of _ c]) simp
        next
          case False
          with v k(4) have "ai_cache s k' = Some v" by simp
          with inv obtain rq j d where "j < requests s" "client rq j = Content d" "v = strip_fence d"
            unfolding from_model_def by blast
          with k(5) show ?thesis
            by (intro exI[of _ rq] exI[of _ j] exI[of _ d]) simp
        qed
      qed
      from k(1,2) have "\<not> (\<forall>i<nat max_retry. \<exists>e. client ?rq (requests s + i) = Raises e)"
        by auto
      with pure show ?thesis by blast
    qed
  qed
qed

theorem smart_ai_cache_purity_witness:
  "from_model down_client fresh
   \<and> ai_cache fresh (cache_key_of ''p'' (Some ''k'')) = None
   \<and> fst (smart_ai down_client ''p'' None (Some ''k'') 3 0.2 2000 fresh) = AI_FAILED
   \<and> ai_cache (snd (smart_ai down_client ''p'' None (Some ''k'') 3 0.2 2000 fresh)) = ai_cache fresh
   \<and> from_model down_client (snd (smart_ai down_client ''p'' None (Some ''k'') 3 0.2 2000 fresh))
   \<and> fst (smart_ai down_client ''p'' None (Some ''k'') 3 0.2 2000
            (snd (smart_ai down_client ''p'' None (Some ''k'') 3 0.2 2000 fresh))) = strip_fence ''ok''"
proof -
  let ?r = "smart_ai down_client ''p'' None (Some ''k'') 3 0.2 2000 fresh"
  have h0: "from_model down_client fresh"
    by (simp add: fresh_def from_model_def)
  have h1: "?r = (fst ?r, snd ?r)" by simp
  have h2: "ai_cache fresh (cache_key_of ''p'' (Some ''k'')) = None"
    by (simp add: fresh_def)
  have h3: "\<forall>i<nat 3. \<exists>e. down_client (model_of None, ''p'', 0.2, 2000) (requests fresh + i) = Raises e"
    by (simp add: down_client_def fresh_def)
  have h4: "requests (snd ?r) = 3"
    by (simp add: smart_ai_def cache_key_of_def model_of_def fresh_def down_client_def
        numeral_3_eq_3)
  have h5: "down_client (model_of None, ''p'', 0.2, 2000) (requests (snd ?r)) = Content ''ok''"
    unfolding h4 by (simp add: down_client_def)
  from smart_ai_cache_purity[OF h0 h1, of 3] h2 h3 h5
  show ?thesis using h0 by simp
qed

section \<open>The JSON contract\<close>







text \<open>
  C3. On the truncated text of the claim the repair does not give the dict: the text
  after the last quote holds a colon, so \<open>fix_truncated_json\<close> cuts the text after
  the key and appends two quotes, which loses the open bracket and is not JSON; the
  result is the error dict. Closing the bracket and the brace alone would have parsed to
  the dict the claim names.
\<close>

theorem parse_guaranteed_truncated_not_repaired:
  \<open>fix_truncated_json ''{"a": 1, "b": [1,2'' = ''{"a": 1, "b"""}''
   \<and> parse_guaranteed json_loads ''{"a": 1, "b": [1,2''
       = [(''error'', JString ''Invalid JSON from AI: Expecting ':' delimiter''),
          (''raw'', JString ''{"a": 1, "b": [1,2'')]
   \<and> json_loads (''{"a": 1, "b": [1,2'' @ '']}'')
       = Inr (JObject [(''a'', JNum (PyInt 1)), (''b'', JArray [JNum (PyInt 1), JNum (PyInt 2)])])\<close>
  by code_simp


section \<open>The fetcher\<close>

lemma from_ok_response_earlier:
  "from_ok_response net url t (Suc k) k' r \<Longrightarrow> from_ok_response net url t k k' r"
  unfolding from_ok_response_def by (meson Suc_leD)

lemma fetch_attempts_provenance:
  "success result = False \<Longrightarrow> html result = [] \<Longrightarrow>
   fetch_attempts net url t n last_error result k = (r, k') \<Longrightarrow>
     (success r \<longrightarrow> from_ok_response net url t k k' r \<and> 50 \<le> length (html r)
                    \<and> status_code r = Some 200)
     \<and> (\<not> success r \<longrightarrow> html r = [])"
proof (induction n arbitrary: last_error result k)
  case 0
  then show ?case by auto
next
  case (Suc n)
  note IH = Suc.IH and run = Suc.prems(3)
  show ?case
  proof (cases "net url True t k")
    case (Response status reason body)
    show ?thesis
    proof (cases "status = 200")
      case s: True
      show ?thesis
      proof (cases "length body < 50")
        case True
        with run Response s have
          "fetch_attempts net url t n (Some ''Empty or slow response from server'')
                 (result\<lparr>status_code := Some status\<rparr>) (Suc k) = (r, k')"
          by (simp add: Let_def)
        with Suc.prems(1,2) IH[of "result\<lparr>status_code := Some status\<rparr>"
            "Some ''Empty or slow response from server''" "Suc k"]
        have "(success r \<longrightarrow> from_ok_response net url t (Suc k) k' r \<and> 50 \<le> length (html r)
                    \<and> status_code r = Some 200) \<and> (\<not> success r \<longrightarrow> html r = [])"
          by simp
        then show ?thesis by (blast intro: from_ok_response_earlier)
      next
        case False
        with run Response s have "r = result\<lparr>status_code := Some status, success := True, html := body\<rparr>"
          "k' = Suc k"
          by (auto simp: Let_def)
        with False s Response show ?thesis
          by (auto simp: from_ok_response_def intro!: exI[of _ k] exI[of _ True] exI[of _ reason])
      qed
    next
      case False
      with run Response Suc.prems(1,2) show ?thesis by (auto simp: Let_def)
    qed
  next
    case (Raised e)
    with run Suc.prems(1,2) show ?thesis by auto
  qed
qed

text \<open>
  C2. For every URL, parser and network, the result of \<open>fetch_raw_html\<close> has
  \<open>success\<close> true if and only if its \<open>html\<close> is not empty, has at least 50
  characters and is the text of a response with status 200 to one of the requests that
  this call sent for the checked URL.
\<close>

theorem fetch_raw_html_success_iff:
  assumes "fetch_raw_html urlparse net url k = (r, k')"
  shows "success r \<longleftrightarrow>
           html r \<noteq> [] \<and> 50 \<le> length (html r)
           \<and> (\<exists>u. checked_url urlparse url = Inr u \<and> from_ok_response net u (timeout_of u) k k' r)"
proof (cases "checked_url urlparse url")
  case (Inl e)
  with assms show ?thesis by (auto simp: fetch_raw_html_def)
next
  case (Inr u)
  let ?result = "\<lparr>success = False, status_code = None, html = [], error = []\<rparr>"
  from Inr assms have "fetch_attempts net u (timeout_of u) 3 None ?result k = (r, k')"
    by (simp add: fetch_raw_html_def)
  from fetch_attempts_provenance[OF _ _ this] Inr show ?thesis by auto
qed

theorem fetch_raw_html_success_iff_witness:
  "fetch_raw_html urlsplit_scheme serving ''example.com'' 0
     = (\<lparr>success = True, status_code = Some 200, html = ok_page, error = []\<rparr>, 1)
   \<and> ok_page \<noteq> [] \<and> 50 \<le> length ok_page
   \<and> (\<exists>u. checked_url urlsplit_scheme ''example.com'' = Inr u
          \<and> from_ok_response serving u (timeout_of u) 0 1
               \<lparr>success = True, status_code = Some 200, html = ok_page, error = []\<rparr>)"
proof -
  have run: "fetch_raw_html urlsplit_scheme serving ''example.com'' 0
     = (\<lparr>success = True, status_code = Some 200, html = ok_page, error = []\<rparr>, 1)"
    by code_simp
  from fetch_raw_html_success_iff[OF run] run show ?thesis by simp
qed

text \<open>
  C6. When the first request of a fetch is answered with a status other than 200, the
  fetch returns at once: \<open>success\<close> is false, the result carries that status code
  and \<open>HTTP <code>: <reason>\<close>, and exactly one request has been sent.
\<close>

theorem fetch_raw_html_non_200_immediate:
  assumes "checked_url urlparse url = Inr u"
    and "net u True (timeout_of u) k = Response status reason body"
    and "status \<noteq> 200"
  shows "fetch_raw_html urlparse net url k
    = (\<lparr>success = False, status_code = Some status, html = [],
         error = ''HTTP '' @ str_int status @ '': '' @ reason\<rparr>, Suc k)"
  using assms by (simp add: fetch_raw_html_def numeral_3_eq_3)

theorem fetch_raw_html_non_200_immediate_witness:
  "checked_url urlsplit_scheme ''https://example.com/missing'' = Inr ''https://example.com/missing''
   \<and> not_found ''https://example.com/missing'' True (timeout_of ''https://example.com/missing'') 0
       = Response 404 ''Not Found'' ''<html><body>no such page</body></html>''
   \<and> fetch_raw_html urlsplit_scheme not_found ''https://example.com/missing'' 0
       = (\<lparr>success = False, status_code = Some 404, html = [], error = ''HTTP 404: Not Found''\<rparr>, 1)"
proof -
  have u: "checked_url urlsplit_scheme ''https://example.com/missing'' = Inr ''https://example.com/missing''"
    by code_simp
  have n: "not_found ''https://example.com/missing'' True (timeout_of ''https://example.com/missing'') 0
       = Response 404 ''Not Found'' ''<html><body>no such page</body></html>''"
    by (simp add: not_found_def)
  have s: "str_int 404 = ''404''" by code_simp
  from fetch_raw_html_non_200_immediate[where urlparse = urlsplit_scheme and net = not_found
      and url = "''https://example.com/missing''" and k = 0, OF u n] u n s
  show ?thesis by simp
qed




end
